theory Spec2Isabelle
  imports Main
begin

section \<open>HTTP values\<close>

text \<open>
  A request as the hosting runtime hands it to the application: the method and the path
  of the URL, and the parts of the request that routing does not look at (query string,
  headers, body).
\<close>

record request =
  req_method :: string
  req_path :: string
  req_query :: string
  req_headers :: "(string \<times> string) list"
  req_body :: string

record response =
  status :: nat
  content_type :: string
  body :: string

text \<open>
  \<open>TypeError\<close>: a method is called through a reference that holds no application
  object. \<open>Thrown\<close>: a handler raised.
\<close>

datatype error = TypeError | Thrown string

text \<open>
  What one invocation of the application gives: the response of the handler that
  matched, \<open>Fallthrough\<close> when no registered route matched (the framework's default
  answer, which the specification leaves open), or \<open>Failed\<close> when it raised.
\<close>

datatype outcome = Responded response | Fallthrough | Failed error

section \<open>The framework interface used by \<open>src/index.ts\<close>\<close>

text \<open>
  The module imports the class \<open>Hono\<close> from the package \<open>hono\<close>, which is not part
  of the repository. The four operations the module relies on (\<open>new Hono()\<close>,
  \<open>app.get\<close>, \<open>c.text\<close> and the dispatch of a request) are modelled here as the
  specification describes them.
\<close>

text \<open>The context \<open>c\<close> that a handler receives: it carries the request.\<close>

record ctx =
  req :: request

text \<open>
  A handler may read its context and the state of the world \<open>'w\<close> around the worker
  (whatever a handler could reach: bindings, globals, the network); it returns a response
  or raises, and the world as it left it.
\<close>

type_synonym 'w handler = "ctx \<Rightarrow> 'w \<Rightarrow> (error + response) \<times> 'w"

record 'w route =
  route_method :: string
  route_path :: string
  route_handler :: "'w handler"

text \<open>An application object: its registered routes, in the order of registration.\<close>

record 'w hono =
  routes :: "'w route list"

text \<open>
  The state of a run: the application objects by reference, the next free reference, and
  the world.
\<close>

record 'w state =
  objs :: "nat \<Rightarrow> 'w hono option"
  next_ref :: nat
  world :: 'w

definition empty_state :: "'w \<Rightarrow> 'w state" where
  "empty_state w = \<lparr>objs = Map.empty, next_ref = 0, world = w\<rparr>"

text \<open>
  Modelled from the spec: \<open>c.text\<close> of the framework, which is not in the repository.
  "Returns a response with status 200, content-type text, and body equal to" its argument;
  the content type is written \<open>text/plain\<close> as in the specification's HTTP surface.
\<close>

definition ctx_text :: "ctx \<Rightarrow> string \<Rightarrow> response" where
  "ctx_text c s = \<lparr>status = 200, content_type = ''text/plain'', body = s\<rparr>"

text \<open>
  Modelled from the spec: the constructor \<open>new Hono()\<close> of the framework. It makes a
  fresh application object with no route and returns the reference to it.
\<close>

definition new_Hono :: "'w state \<Rightarrow> nat \<times> 'w state" where
  "new_Hono s =
     (next_ref s,
      s\<lparr>objs := (objs s)(next_ref s \<mapsto> \<lparr>routes = []\<rparr>), next_ref := Suc (next_ref s)\<rparr>)"

text \<open>
  Modelled from the spec: \<open>app.get(path, handler)\<close> of the framework. It "binds the HTTP
  method GET and path" \<open>path\<close> "to a handler function", on the object that \<open>app\<close> refers to.
\<close>

definition hono_get :: "nat \<Rightarrow> string \<Rightarrow> 'w handler \<Rightarrow> 'w state \<Rightarrow> error + 'w state" where
  "hono_get app path h s =
     (case objs s app of
        None \<Rightarrow> Inl TypeError
      | Some a \<Rightarrow>
          Inr (s\<lparr>objs := (objs s)(app \<mapsto>
                 a\<lparr>routes := routes a @
                   [\<lparr>route_method = ''GET'', route_path = path, route_handler = h\<rparr>]\<rparr>)\<rparr>))"

text \<open>
  Modelled from the spec: the framework's routing. A route matches a request when its
  method and its path are the request's; the first registered route that matches is taken.
\<close>

fun match_route :: "'w route list \<Rightarrow> string \<Rightarrow> string \<Rightarrow> 'w handler option" where
  "match_route [] m p = None"
| "match_route (r # rs) m p =
     (if route_method r = m \<and> route_path r = p then Some (route_handler r)
      else match_route rs m p)"

text \<open>
  Modelled from the spec: \<open>app.fetch(request)\<close> of the framework, the capability
  "handle(method, path) -> response" that the hosting runtime invokes. The matched handler
  runs on a context made from the request; with no match the request falls through.
\<close>

definition fetch :: "nat \<Rightarrow> request \<Rightarrow> 'w state \<Rightarrow> outcome \<times> 'w state" where
  "fetch app rq s =
     (case objs s app of
        None \<Rightarrow> (Failed TypeError, s)
      | Some a \<Rightarrow>
          (case match_route (routes a) (req_method rq) (req_path rq) of
             None \<Rightarrow> (Fallthrough, s)
           | Some h \<Rightarrow>
               (case h \<lparr>req = rq\<rparr> (world s) of
                  (Inl e, w) \<Rightarrow> (Failed e, s\<lparr>world := w\<rparr>)
                | (Inr r, w) \<Rightarrow> (Responded r, s\<lparr>world := w\<rparr>))))"

section \<open>The module \<open>src/index.ts\<close>\<close>

text \<open>
  \<^verbatim>\<open>
  import { Hono } from 'hono'

  const app = new Hono()

  app.get('/', (c) => {
    return c.text('Hello Hono! x gha deploy')
  })

  export default app
  \<close>
\<close>

text \<open>The arrow function registered for \<open>GET /\<close> (lines 5 to 7).\<close>

definition root_handler :: "'w handler" where
  "root_handler c w = (Inr (ctx_text c ''Hello Hono! x gha deploy''), w)"

record exports =
  default_export :: nat

text \<open>
  Loading the module runs its three statements in order. The value of \<open>app.get(...)\<close> is
  discarded by the source; only its effect on the object remains.
\<close>

definition load_module :: "'w state \<Rightarrow> error + (exports \<times> 'w state)" where
  "load_module s0 =
     (let (app, s1) = new_Hono s0 in
      case hono_get app ''/'' root_handler s1 of
        Inl e \<Rightarrow> Inl e
      | Inr s2 \<Rightarrow> Inr (\<lparr>default_export = app\<rparr>, s2))"

text \<open>
  The hosting runtime invokes the application once for each request; the state left by
  one invocation is the state the next one starts in.
\<close>

fun serve :: "nat \<Rightarrow> request list \<Rightarrow> 'w state \<Rightarrow> outcome list \<times> 'w state" where
  "serve app [] s = ([], s)"
| "serve app (rq # rqs) s =
     (case fetch app rq s of
        (out, s1) \<Rightarrow> (case serve app rqs s1 of (outs, s2) \<Rightarrow> (out # outs, s2)))"

text \<open>
  Concrete inputs for the examples below: the state that loading the module in the empty
  state leaves, and two requests.
\<close>

abbreviation loaded_state :: "unit state" where
  "loaded_state \<equiv>
     \<lparr>objs = [0 \<mapsto> \<lparr>routes = [\<lparr>route_method = ''GET'', route_path = ''/'',
                                     route_handler = root_handler\<rparr>]\<rparr>],
      next_ref = 1, world = ()\<rparr>"

abbreviation get_root_rq :: request where
  "get_root_rq \<equiv>
     \<lparr>req_method = ''GET'', req_path = ''/'', req_query = ''x=1'',
      req_headers = [(''Accept'', ''*/*'')], req_body = []\<rparr>"

abbreviation post_root_rq :: request where
  "post_root_rq \<equiv>
     \<lparr>req_method = ''POST'', req_path = ''/'', req_query = [],
      req_headers = [(''Content-Type'', ''application/json'')], req_body = ''{}''\<rparr>"

section \<open>The deployment descriptor\<close>

text \<open>
  The descriptor that the README documents, in its two forms (lines 182 to 196):
  \<^verbatim>\<open>
  {
    "name": "my-worker",
    "main": "src/index.ts",
    "compatibility_date": "2025-12-10"
  }
  \<close>
  \<^verbatim>\<open>
  name = "my-worker"
  main = "src/index.ts"
  compatibility_date = "2025-12-10"
  \<close>
  Each is written down as the syntax tree of its format.
\<close>

datatype json = JString string | JObject "(string \<times> json) list"

datatype toml_value = TString string

type_synonym toml = "(string \<times> toml_value) list"

definition wrangler_json :: json where
  "wrangler_json =
     JObject [(''name'', JString ''my-worker''),
              (''main'', JString ''src/index.ts''),
              (''compatibility_date'', JString ''2025-12-10'')]"

definition wrangler_toml :: toml where
  "wrangler_toml =
     [(''name'', TString ''my-worker''),
      (''main'', TString ''src/index.ts''),
      (''compatibility_date'', TString ''2025-12-10'')]"

text \<open>
  Modelled from the spec: the Deployment Descriptor, "a structured record with fields
  name (string), main/entryPoint (string, relative path), compatibility_date (ISO date
  string)". The deploy tool that reads it is not in the repository.
\<close>

record descriptor =
  name :: string
  main :: string
  compatibility_date :: string

text \<open>
  Modelled from the spec: what a form binds a field to. The reader belongs to the deploy
  tool, which is not in the repository; a field is bound when the form has a string under
  that key.
\<close>

fun json_field :: "json \<Rightarrow> string \<Rightarrow> string option" where
  "json_field (JObject kvs) k =
     (case map_of kvs k of Some (JString v) \<Rightarrow> Some v | _ \<Rightarrow> None)"
| "json_field (JString v) k = None"

definition toml_field :: "toml \<Rightarrow> string \<Rightarrow> string option" where
  "toml_field kvs k = (case map_of kvs k of Some (TString v) \<Rightarrow> Some v | None \<Rightarrow> None)"

definition descriptor_of :: "(string \<Rightarrow> string option) \<Rightarrow> descriptor option" where
  "descriptor_of field =
     (case field ''name'' of
        None \<Rightarrow> None
      | Some n \<Rightarrow>
          (case field ''main'' of
             None \<Rightarrow> None
           | Some m \<Rightarrow>
               (case field ''compatibility_date'' of
                  None \<Rightarrow> None
                | Some d \<Rightarrow> Some \<lparr>name = n, main = m, compatibility_date = d\<rparr>)))"

text \<open>
  The layout of the repository (README, project structure, lines 119 to 129), paths as
  lists of segments from the root: the descriptor is \<open>wrangler.json\<close> at the root, the
  worker entry point is \<open>src/index.ts\<close>, the module modelled by \<open>load_module\<close>.
\<close>

definition descriptor_path :: "string list" where
  "descriptor_path = [''wrangler.json'']"

definition entry_module_path :: "string list" where
  "entry_module_path = [''src'', ''index.ts'']"

definition repo_modules :: "(string list \<times> ('w state \<Rightarrow> error + (exports \<times> 'w state))) list" where
  "repo_modules = [(entry_module_path, load_module)]"

text \<open>The path \<open>p\<close> as seen from the directory \<open>dir\<close>, when it lies below it.\<close>

definition relative_to :: "string list \<Rightarrow> string list \<Rightarrow> string list option" where
  "relative_to dir p =
     (if take (length dir) p = dir then Some (drop (length dir) p) else None)"

fun join_path :: "string list \<Rightarrow> string" where
  "join_path [] = []"
| "join_path [x] = x"
| "join_path (x # y # ys) = x @ ''/'' @ join_path (y # ys)"

section \<open>Facts about loading and dispatch\<close>

lemma load_module_eq:
  "load_module s0 =
     Inr (\<lparr>default_export = next_ref s0\<rparr>,
          s0\<lparr>objs := (objs s0)(next_ref s0 \<mapsto>
                 \<lparr>routes = [\<lparr>route_method = ''GET'', route_path = ''/'',
                              route_handler = root_handler\<rparr>]\<rparr>),
             next_ref := Suc (next_ref s0)\<rparr>)"
  by (simp add: load_module_def new_Hono_def hono_get_def)

lemma loaded_app:
  assumes "load_module s0 = Inr (ex, s)"
  shows "objs s (default_export ex) =
           Some \<lparr>routes = [\<lparr>route_method = ''GET'', route_path = ''/'',
                             route_handler = root_handler\<rparr>]\<rparr>"
  using assms unfolding load_module_eq by auto

text \<open>
  Dispatch on an application object that holds the one route of the module, in any state.
\<close>

lemma fetch_single_route:
  assumes "objs s app =
             Some \<lparr>routes = [\<lparr>route_method = ''GET'', route_path = ''/'',
                               route_handler = root_handler\<rparr>]\<rparr>"
  shows "fetch app rq s =
           (if req_method rq = ''GET'' \<and> req_path rq = ''/''
            then (Responded (ctx_text \<lparr>req = rq\<rparr> ''Hello Hono! x gha deploy''), s)
            else (Fallthrough, s))"
  by (simp add: fetch_def assms root_handler_def)

lemma fetch_loaded:
  assumes "load_module s0 = Inr (ex, s)"
  shows "fetch (default_export ex) rq s =
           (if req_method rq = ''GET'' \<and> req_path rq = ''/''
            then (Responded (ctx_text \<lparr>req = rq\<rparr> ''Hello Hono! x gha deploy''), s)
            else (Fallthrough, s))"
  by (rule fetch_single_route [OF loaded_app [OF assms]])

lemma fetch_loaded_state:
  assumes "load_module s0 = Inr (ex, s)"
  shows "snd (fetch (default_export ex) rq s) = s"
  by (simp add: fetch_loaded [OF assms])

text \<open>Serving a list of requests: one outcome for each, and the state as it was.\<close>

lemma serve_loaded:
  assumes "load_module s0 = Inr (ex, s)"
  shows "serve (default_export ex) rqs s =
           (map (\<lambda>rq. fst (fetch (default_export ex) rq s)) rqs, s)"
proof (induction rqs)
  case Nil
  show ?case by simp
next
  case (Cons rq rqs)
  obtain out where f: "fetch (default_export ex) rq s = (out, s)"
    using fetch_loaded_state [OF assms, of rq] by (cases "fetch (default_export ex) rq s") simp
  show ?case by (simp add: f Cons.IH)
qed

lemma load_module_empty:
  "load_module (empty_state ()) = Inr (\<lparr>default_export = 0\<rparr>, loaded_state)"
  by (simp add: load_module_eq empty_state_def)

section \<open>The response to \<open>GET /\<close>\<close>

text \<open>
  C1. For the request (GET, /) the application answers with status 200, content type
  text/plain and the body \<open>Hello Hono! x gha deploy\<close>, whatever the rest of the request
  and whatever the state the module was loaded in.
\<close>

theorem get_root_response:
  assumes "load_module s0 = Inr (ex, s)"
    and "req_method rq = ''GET''" and "req_path rq = ''/''"
  shows "fst (fetch (default_export ex) rq s) =
           Responded \<lparr>status = 200, content_type = ''text/plain'',
                      body = ''Hello Hono! x gha deploy''\<rparr>"
  using assms(2,3) by (simp add: fetch_loaded [OF assms(1)] ctx_text_def)

theorem get_root_response_witness:
  "load_module (empty_state ()) = Inr (\<lparr>default_export = 0\<rparr>, loaded_state)
   \<and> req_method get_root_rq = ''GET'' \<and> req_path get_root_rq = ''/''
   \<and> fst (fetch 0 get_root_rq loaded_state) =
       Responded \<lparr>status = 200, content_type = ''text/plain'',
                  body = ''Hello Hono! x gha deploy''\<rparr>"
  using get_root_response [OF load_module_empty, of get_root_rq] load_module_empty
  by simp

section \<open>Every other request\<close>

text \<open>
  C2. For a request whose (method, path) is not (GET, /), no registered route matches and
  the request falls through; the state is as before. In particular \<open>POST /\<close> falls
  through, so it does not get the response of \<open>GET /\<close>.
\<close>

theorem other_requests_fall_through:
  assumes "load_module s0 = Inr (ex, s)"
    and "(req_method rq, req_path rq) \<noteq> (''GET'', ''/'')"
  shows "(\<exists>a. objs s (default_export ex) = Some a
            \<and> match_route (routes a) (req_method rq) (req_path rq) = None)
       \<and> fetch (default_export ex) rq s = (Fallthrough, s)
       \<and> fst (fetch (default_export ex)
                 \<lparr>req_method = ''POST'', req_path = ''/'', req_query = q,
                  req_headers = hs, req_body = b\<rparr> s) = Fallthrough"
proof -
  have "match_route [\<lparr>route_method = ''GET'', route_path = ''/'',
                      route_handler = root_handler\<rparr>] (req_method rq) (req_path rq) = None"
    using assms(2) by auto
  then have "\<exists>a. objs s (default_export ex) = Some a
                \<and> match_route (routes a) (req_method rq) (req_path rq) = None"
    by (simp add: loaded_app [OF assms(1)])
  moreover have "fetch (default_export ex) rq s = (Fallthrough, s)"
    using assms(2) by (auto simp add: fetch_loaded [OF assms(1)])
  moreover have "fst (fetch (default_export ex)
                        \<lparr>req_method = ''POST'', req_path = ''/'', req_query = q,
                         req_headers = hs, req_body = b\<rparr> s) = Fallthrough"
    by (simp add: fetch_loaded [OF assms(1)])
  ultimately show ?thesis by blast
qed

theorem other_requests_fall_through_witness:
  "load_module (empty_state ()) = Inr (\<lparr>default_export = 0\<rparr>, loaded_state)
   \<and> (req_method post_root_rq, req_path post_root_rq) \<noteq> (''GET'', ''/'')
   \<and> fetch 0 post_root_rq loaded_state = (Fallthrough, loaded_state)
   \<and> fst (fetch 0 \<lparr>req_method = ''GET'', req_path = ''/about'', req_query = [],
                   req_headers = [], req_body = []\<rparr> loaded_state) = Fallthrough"
proof -
  have h: "(req_method post_root_rq, req_path post_root_rq) \<noteq> (''GET'', ''/'')"
    by simp
  let ?about = "\<lparr>req_method = ''GET'', req_path = ''/about'', req_query = [],
                 req_headers = [], req_body = []\<rparr>"
  have h': "(req_method ?about, req_path ?about) \<noteq> (''GET'', ''/'')"
    by simp
  from other_requests_fall_through [OF load_module_empty h]
    other_requests_fall_through [OF load_module_empty h'] load_module_empty
  show ?thesis by simp
qed

section \<open>Repeated invocations\<close>

text \<open>
  C3. Invoking the application \<open>n\<close> times with the same request, each invocation starting
  in the state the one before left, gives \<open>n\<close> times the outcome of the first (and
  leaves the state as it was), for every request and every \<open>n\<close>.
\<close>

theorem repeated_invocations_identical:
  assumes "load_module s0 = Inr (ex, s)"
  shows "serve (default_export ex) (replicate n rq) s =
           (replicate n (fst (fetch (default_export ex) rq s)), s)"
  by (simp add: serve_loaded [OF assms])

theorem repeated_invocations_identical_witness:
  "load_module (empty_state ()) = Inr (\<lparr>default_export = 0\<rparr>, loaded_state)
   \<and> serve 0 [get_root_rq, get_root_rq, get_root_rq] loaded_state =
       ([Responded \<lparr>status = 200, content_type = ''text/plain'',
                    body = ''Hello Hono! x gha deploy''\<rparr>,
         Responded \<lparr>status = 200, content_type = ''text/plain'',
                    body = ''Hello Hono! x gha deploy''\<rparr>,
         Responded \<lparr>status = 200, content_type = ''text/plain'',
                    body = ''Hello Hono! x gha deploy''\<rparr>], loaded_state)"
proof -
  have r: "replicate 3 x = [x, x, x]" for x :: "'a"
    by (simp add: numeral_3_eq_3)
  have e: "default_export \<lparr>default_export = 0\<rparr> = 0"
    by simp
  have f: "fst (fetch 0 get_root_rq loaded_state) =
             Responded \<lparr>status = 200, content_type = ''text/plain'',
                        body = ''Hello Hono! x gha deploy''\<rparr>"
    by (simp add: fetch_def root_handler_def ctx_text_def)
  have "serve (default_export \<lparr>default_export = 0\<rparr>) (replicate 3 get_root_rq) loaded_state =
          (replicate 3 (fst (fetch (default_export \<lparr>default_export = 0\<rparr>) get_root_rq
                              loaded_state)), loaded_state)"
    by (rule repeated_invocations_identical [OF load_module_empty])
  then have "serve 0 [get_root_rq, get_root_rq, get_root_rq] loaded_state =
       ([Responded \<lparr>status = 200, content_type = ''text/plain'',
                    body = ''Hello Hono! x gha deploy''\<rparr>,
         Responded \<lparr>status = 200, content_type = ''text/plain'',
                    body = ''Hello Hono! x gha deploy''\<rparr>,
         Responded \<lparr>status = 200, content_type = ''text/plain'',
                    body = ''Hello Hono! x gha deploy''\<rparr>], loaded_state)"
    unfolding e r f .
  with load_module_empty show ?thesis ..
qed

section \<open>Totality on the registered route\<close>

text \<open>
  C4. For every request with method GET and path /, the invocation returns a response:
  it is neither a failure nor a fall-through, and the handler itself returns a response
  on every context. (Every function of the model is total, so the invocation ends.)
\<close>

theorem get_root_total:
  assumes "load_module s0 = Inr (ex, s)"
    and "req_method rq = ''GET''" and "req_path rq = ''/''"
  shows "(\<exists>r. fetch (default_export ex) rq s = (Responded r, s))
       \<and> (\<forall>e. fst (fetch (default_export ex) rq s) \<noteq> Failed e)
       \<and> fst (fetch (default_export ex) rq s) \<noteq> Fallthrough
       \<and> (\<exists>r. fst (root_handler \<lparr>req = rq\<rparr> (world s)) = Inr r)"
  using assms(2,3) by (simp add: fetch_loaded [OF assms(1)] root_handler_def)

theorem get_root_total_witness:
  "load_module (empty_state ()) = Inr (\<lparr>default_export = 0\<rparr>, loaded_state)
   \<and> req_method get_root_rq = ''GET'' \<and> req_path get_root_rq = ''/''
   \<and> (\<exists>r. fetch 0 get_root_rq loaded_state = (Responded r, loaded_state))
   \<and> (\<forall>e. fst (fetch 0 get_root_rq loaded_state) \<noteq> Failed e)"
  using get_root_total [OF load_module_empty, of get_root_rq] load_module_empty
  by simp

section \<open>The registered routes\<close>

text \<open>
  C5. The object made by \<open>new Hono()\<close> starts with no route; after the module is loaded
  it holds exactly one route, (GET, /) bound to the handler; and after serving any list
  of requests it still holds exactly that route.
\<close>

theorem exactly_one_route:
  assumes "load_module s0 = Inr (ex, s)"
  shows "map_option routes (objs (snd (new_Hono s0)) (default_export ex)) = Some []
       \<and> map_option routes (objs s (default_export ex)) =
           Some [\<lparr>route_method = ''GET'', route_path = ''/'', route_handler = root_handler\<rparr>]
       \<and> map_option routes
           (objs (snd (serve (default_export ex) rqs s)) (default_export ex)) =
           Some [\<lparr>route_method = ''GET'', route_path = ''/'', route_handler = root_handler\<rparr>]"
proof -
  have "default_export ex = next_ref s0"
    using assms unfolding load_module_eq by auto
  then have "map_option routes (objs (snd (new_Hono s0)) (default_export ex)) = Some []"
    by (simp add: new_Hono_def)
  then show ?thesis
    by (simp add: serve_loaded [OF assms] loaded_app [OF assms])
qed

theorem exactly_one_route_witness:
  "load_module (empty_state ()) = Inr (\<lparr>default_export = 0\<rparr>, loaded_state)
   \<and> map_option routes (objs loaded_state 0) =
       Some [\<lparr>route_method = ''GET'', route_path = ''/'', route_handler = root_handler\<rparr>]
   \<and> map_option routes (objs (snd (serve 0 [get_root_rq, post_root_rq] loaded_state)) 0) =
       Some [\<lparr>route_method = ''GET'', route_path = ''/'', route_handler = root_handler\<rparr>]"
  using exactly_one_route [OF load_module_empty, of "[get_root_rq, post_root_rq]"]
    load_module_empty
  by simp

section \<open>No effect on the state\<close>

text \<open>
  C6. An invocation leaves the whole state (application objects and world) as it found
  it, for every request; and the outcome is a function of the method and the path of the
  request alone, the same in every world.
\<close>

theorem fetch_leaves_state:
  assumes "load_module s0 = Inr (ex, s)"
  shows "snd (fetch (default_export ex) rq s) = s
       \<and> (\<exists>f. \<forall>rq' w. fetch (default_export ex) rq' (s\<lparr>world := w\<rparr>) =
                         (f (req_method rq') (req_path rq'), s\<lparr>world := w\<rparr>))"
proof -
  let ?f = "\<lambda>m p. if m = ''GET'' \<and> p = ''/''
                   then Responded \<lparr>status = 200, content_type = ''text/plain'',
                                   body = ''Hello Hono! x gha deploy''\<rparr>
                   else Fallthrough"
  have "fetch (default_export ex) rq' (s\<lparr>world := w\<rparr>) =
          (?f (req_method rq') (req_path rq'), s\<lparr>world := w\<rparr>)" for rq' w
  proof -
    have "objs (s\<lparr>world := w\<rparr>) (default_export ex) =
            Some \<lparr>routes = [\<lparr>route_method = ''GET'', route_path = ''/'',
                              route_handler = root_handler\<rparr>]\<rparr>"
      by (simp add: loaded_app [OF assms])
    from fetch_single_route [OF this] show ?thesis
      by (simp add: ctx_text_def)
  qed
  then have "\<exists>f. \<forall>rq' w. fetch (default_export ex) rq' (s\<lparr>world := w\<rparr>) =
                         (f (req_method rq') (req_path rq'), s\<lparr>world := w\<rparr>)"
    by (intro exI [of _ ?f] allI)
  then show ?thesis
    by (simp add: fetch_loaded_state [OF assms])
qed

theorem fetch_leaves_state_witness:
  "load_module (empty_state ()) = Inr (\<lparr>default_export = 0\<rparr>, loaded_state)
   \<and> snd (fetch 0 get_root_rq loaded_state) = loaded_state
   \<and> snd (fetch 0 post_root_rq loaded_state) = loaded_state"
  using fetch_leaves_state [OF load_module_empty, of get_root_rq]
    fetch_leaves_state [OF load_module_empty, of post_root_rq] load_module_empty
  by simp

section \<open>The default export\<close>

text \<open>
  C7. Loading the module succeeds in every state, and its default export is the
  reference that \<open>new Hono()\<close> returned: the object on which \<open>app.get\<close> registered the
  route. Through that reference every GET / request gets the fixed response.
\<close>

theorem default_export_is_app:
  "\<exists>ex s s1. load_module s0 = Inr (ex, s)
      \<and> new_Hono s0 = (default_export ex, s1)
      \<and> hono_get (default_export ex) ''/'' root_handler s1 = Inr s
      \<and> (\<forall>q hs b. fst (fetch (default_export ex)
                           \<lparr>req_method = ''GET'', req_path = ''/'', req_query = q,
                            req_headers = hs, req_body = b\<rparr> s) =
                    Responded \<lparr>status = 200, content_type = ''text/plain'',
                               body = ''Hello Hono! x gha deploy''\<rparr>)"
proof -
  obtain ex s where l: "load_module s0 = Inr (ex, s)"
    using load_module_eq [of s0] by blast
  obtain s1 where n: "new_Hono s0 = (next_ref s0, s1)"
    by (simp add: new_Hono_def)
  have e: "default_export ex = next_ref s0"
    using l unfolding load_module_eq by auto
  have g: "hono_get (default_export ex) ''/'' root_handler s1 = Inr s"
    using l n unfolding e by (simp add: load_module_def split: sum.splits)
  have "fst (fetch (default_export ex)
               \<lparr>req_method = ''GET'', req_path = ''/'', req_query = q,
                req_headers = hs, req_body = b\<rparr> s) =
          Responded \<lparr>status = 200, content_type = ''text/plain'',
                     body = ''Hello Hono! x gha deploy''\<rparr>" for q hs b
    by (simp add: fetch_loaded [OF l] ctx_text_def)
  with l n g e show ?thesis by auto
qed

section \<open>Independence of the rest of the request\<close>

text \<open>
  C10. Two requests that both have method GET and path / get the same outcome and leave
  the same state, whatever their query strings, headers and bodies.
\<close>

theorem get_root_ignores_rest:
  assumes "load_module s0 = Inr (ex, s)"
    and "req_method r1 = ''GET''" and "req_path r1 = ''/''"
    and "req_method r2 = ''GET''" and "req_path r2 = ''/''"
  shows "fetch (default_export ex) r1 s = fetch (default_export ex) r2 s"
  using assms(2-5) by (simp add: fetch_loaded [OF assms(1)] ctx_text_def)

theorem get_root_ignores_rest_witness:
  "load_module (empty_state ()) = Inr (\<lparr>default_export = 0\<rparr>, loaded_state)
   \<and> fetch 0 get_root_rq loaded_state =
     fetch 0 \<lparr>req_method = ''GET'', req_path = ''/'', req_query = ''debug=true'',
              req_headers = [(''Authorization'', ''Bearer t'')], req_body = ''payload''\<rparr>
       loaded_state"
proof -
  let ?r2 = "\<lparr>req_method = ''GET'', req_path = ''/'', req_query = ''debug=true'',
              req_headers = [(''Authorization'', ''Bearer t'')], req_body = ''payload''\<rparr>"
  have "fetch (default_export \<lparr>default_export = 0\<rparr>) get_root_rq loaded_state =
        fetch (default_export \<lparr>default_export = 0\<rparr>) ?r2 loaded_state"
    by (rule get_root_ignores_rest [OF load_module_empty]) simp_all
  with load_module_empty show ?thesis by simp
qed

section \<open>The descriptor and the entry point\<close>

text \<open>
  C8. The documented descriptor reads as a descriptor whose \<open>main\<close> is \<open>src/index.ts\<close>,
  and that is exactly the path, relative to the directory of the descriptor, of the
  repository's module \<open>src/index.ts\<close>, the one that default-exports the application.
\<close>

theorem main_is_entry_module_path:
  "\<exists>d rel. descriptor_of (json_field wrangler_json) = Some d
      \<and> map_of repo_modules entry_module_path = Some load_module
      \<and> relative_to (butlast descriptor_path) entry_module_path = Some rel
      \<and> main d = join_path rel
      \<and> main d = ''src/index.ts''"
  by (simp add: descriptor_of_def wrangler_json_def repo_modules_def relative_to_def
      descriptor_path_def entry_module_path_def)

text \<open>
  C9. The JSON form and the TOML form of the documented descriptor bind every key to the
  same value: \<open>name\<close> to \<open>my-worker\<close>, \<open>main\<close> to \<open>src/index.ts\<close>,
  \<open>compatibility_date\<close> to \<open>2025-12-10\<close>, and no other key; so both read as the same
  descriptor.
\<close>

theorem descriptor_forms_agree:
  "(\<forall>k. json_field wrangler_json k = toml_field wrangler_toml k)
   \<and> json_field wrangler_json ''name'' = Some ''my-worker''
   \<and> toml_field wrangler_toml ''name'' = Some ''my-worker''
   \<and> json_field wrangler_json ''main'' = Some ''src/index.ts''
   \<and> toml_field wrangler_toml ''main'' = Some ''src/index.ts''
   \<and> json_field wrangler_json ''compatibility_date'' = Some ''2025-12-10''
   \<and> toml_field wrangler_toml ''compatibility_date'' = Some ''2025-12-10''
   \<and> descriptor_of (json_field wrangler_json) = descriptor_of (toml_field wrangler_toml)
   \<and> descriptor_of (toml_field wrangler_toml) =
       Some \<lparr>name = ''my-worker'', main = ''src/index.ts'',
             compatibility_date = ''2025-12-10''\<rparr>"
proof -
  have a: "json_field wrangler_json k = toml_field wrangler_toml k" for k
    by (simp add: wrangler_json_def wrangler_toml_def toml_field_def)
  have j: "json_field wrangler_json = toml_field wrangler_toml"
    by (rule ext) (rule a)
  have n: "toml_field wrangler_toml ''name'' = Some ''my-worker''"
    by (simp add: wrangler_toml_def toml_field_def)
  have m: "toml_field wrangler_toml ''main'' = Some ''src/index.ts''"
    by (simp add: wrangler_toml_def toml_field_def)
  have c: "toml_field wrangler_toml ''compatibility_date'' = Some ''2025-12-10''"
    by (simp add: wrangler_toml_def toml_field_def)
  have d: "descriptor_of (toml_field wrangler_toml) =
             Some \<lparr>name = ''my-worker'', main = ''src/index.ts'',
                   compatibility_date = ''2025-12-10''\<rparr>"
    by (simp add: descriptor_of_def n m c)
  show ?thesis
    unfolding j using n m c d by simp
qed

end
